theory Spec2Isabelle
  imports Complex_Main "HOL-Library.Sublist"
begin

section \<open>JavaScript values\<close>

text \<open>
  The backend receives MQTT messages whose bodies are parsed with \<open>JSON.parse\<close>. A
  parsed body is a JSON value; a number is a double, modelled by the real it denotes when
  it is finite (comparison of doubles with the integer thresholds is exact), or by one of
  the three non-finite values. A property that is not there reads as \<open>undefined\<close>, which
  is \<open>None\<close> of \<open>jsval\<close>. An object is the list of its own properties (keys distinct, as
  \<open>JSON.parse\<close> leaves them); its values are JSON values, so none of them is a function.
  A string is the list of its UTF-8 bytes: a character below 128 is the ASCII character, and
  the bytes of any other character are all 128 or more, so that comparing with, searching
  for and cutting out ASCII texts give what they give on the JavaScript string.
\<close>

datatype jsnum = Fin real | PosInf | NegInf | NaN

datatype json =
    JNull
  | JBool bool
  | JNum jsnum
  | JStr string
  | JArr "json list"
  | JObj "(string \<times> json) list"

type_synonym jsval = "json option"

text \<open>A thrown value: a TypeError of the runtime, or \<open>new Error(message)\<close> with the
  \<open>status\<close> the code sets on it, if any.\<close>

datatype error = TypeError | Err string "nat option"

text \<open>Truthiness (ToBoolean): \<open>undefined\<close>, \<open>null\<close>, \<open>false\<close>, \<open>0\<close>, \<open>NaN\<close> and the
  empty string are falsy, everything else (every array and object too) is truthy.\<close>

fun truthy_json :: "json \<Rightarrow> bool" where
  "truthy_json JNull = False"
| "truthy_json (JBool b) = b"
| "truthy_json (JNum (Fin x)) = (x \<noteq> 0)"
| "truthy_json (JNum NaN) = False"
| "truthy_json (JNum PosInf) = True"
| "truthy_json (JNum NegInf) = True"
| "truthy_json (JStr s) = (s \<noteq> [])"
| "truthy_json (JArr xs) = True"
| "truthy_json (JObj kvs) = True"

fun truthy :: "jsval \<Rightarrow> bool" where
  "truthy None = False"
| "truthy (Some j) = truthy_json j"

text \<open>The operator \<open>a || b\<close> returns one of its operands (its right operand is
  evaluated only when the left one is falsy, which matters below where it may throw).\<close>

definition js_or :: "jsval \<Rightarrow> jsval \<Rightarrow> jsval" where
  "js_or a b = (if truthy a then a else b)"

fun typeof_json :: "json \<Rightarrow> string" where
  "typeof_json JNull = ''object''"
| "typeof_json (JBool b) = ''boolean''"
| "typeof_json (JNum n) = ''number''"
| "typeof_json (JStr s) = ''string''"
| "typeof_json (JArr xs) = ''object''"
| "typeof_json (JObj kvs) = ''object''"

fun typeof :: "jsval \<Rightarrow> string" where
  "typeof None = ''undefined''"
| "typeof (Some j) = typeof_json j"

text \<open>Reading a property \<open>v.k\<close> of a value other than \<open>null\<close> and \<open>undefined\<close> (there the
  read throws, which every caller below handles before it reads). The keys the backend reads
  (\<open>ts\<close>, \<open>homeId\<close>, \<open>co2\<close>, ...) are no properties of a string, number, boolean or array,
  so only an object can hold them.\<close>

fun js_get :: "json \<Rightarrow> string \<Rightarrow> jsval" where
  "js_get (JObj kvs) k = map_of kvs k"
| "js_get j k = None"

text \<open>What the JavaScript runtime supplies and the repository does not define:
  \<open>JSON.parse\<close> (\<open>None\<close> when it throws a SyntaxError), the text of a number
  (Number::toString), \<open>new Date(v).toISOString()\<close> for a value \<open>v\<close> whose conversion
  to a primitive returns (\<open>None\<close> when the date is invalid), the clock
  (\<open>now_iso rt n\<close> is what the \<open>n\<close>-th \<open>new Date().toISOString()\<close> of one handler run
  returns), and the case mappings of texts that are not all ASCII.\<close>

record runtime =
  json_parse :: "string \<Rightarrow> json option"
  num_str :: "jsnum \<Rightarrow> string"
  date_iso :: "json \<Rightarrow> string option"
  now_iso :: "nat \<Rightarrow> string"
  upper_beyond_ascii :: "string \<Rightarrow> string"
  lower_beyond_ascii :: "string \<Rightarrow> string"

fun join_comma :: "string list \<Rightarrow> string" where
  "join_comma [] = []"
| "join_comma [s] = s"
| "join_comma (s # t # ss) = s @ '','' @ join_comma (t # ss)"

text \<open>
  Converting a value to a primitive (\<open>String(v)\<close>, a template literal, \<open>new Date(v)\<close>)
  asks an object for its \<open>toString\<close> and \<open>valueOf\<close>. A parsed object that has a key
  \<open>toString\<close> of its own hides the inherited method behind a value that cannot be called,
  and the inherited \<open>valueOf\<close> returns the object itself, so the conversion throws a
  TypeError; without that key it yields \<open>[object Object]\<close>. An array converts by joining
  the conversions of its elements (\<open>null\<close> elements give the empty text), so it throws when
  one of them does.
\<close>

fun to_primitive_throws :: "json \<Rightarrow> bool" where
  "to_primitive_throws (JObj kvs) = (map_of kvs ''toString'' \<noteq> None)"
| "to_primitive_throws (JArr xs) = list_ex to_primitive_throws xs"
| "to_primitive_throws j = False"

text \<open>The text of a value whose conversion does not throw.\<close>

fun text_of :: "runtime \<Rightarrow> json \<Rightarrow> string" where
  "text_of rt JNull = ''null''"
| "text_of rt (JBool b) = (if b then ''true'' else ''false'')"
| "text_of rt (JNum n) = num_str rt n"
| "text_of rt (JStr s) = s"
| "text_of rt (JArr xs) =
     join_comma (map (\<lambda>x. if x = JNull then [] else text_of rt x) xs)"
| "text_of rt (JObj kvs) = ''[object Object]''"

fun js_text :: "runtime \<Rightarrow> jsval \<Rightarrow> string" where
  "js_text rt None = ''undefined''"
| "js_text rt (Some j) = text_of rt j"

text \<open>\<open>true\<close> for the values whose conversion to a primitive returns.\<close>

fun converts :: "jsval \<Rightarrow> bool" where
  "converts None = True"
| "converts (Some j) = (\<not> to_primitive_throws j)"

text \<open>\<open>String(v)\<close>, and \<open>${v}\<close> in a template literal.\<close>

definition js_String :: "runtime \<Rightarrow> jsval \<Rightarrow> error + string" where
  "js_String rt v = (if converts v then Inr (js_text rt v) else Inl TypeError)"

text \<open>
  \<open>toUpperCase\<close> and \<open>toLowerCase\<close>: on a text that is all ASCII they change the letters
  a-z and A-Z and nothing else; on any other text they are what the runtime makes of it.
\<close>

definition is_ascii :: "string \<Rightarrow> bool" where
  "is_ascii s = list_all (\<lambda>c. \<not> digit7 c) s"

definition lower_letters :: string where
  "lower_letters = ''abcdefghijklmnopqrstuvwxyz''"

definition upper_letters :: string where
  "upper_letters = ''ABCDEFGHIJKLMNOPQRSTUVWXYZ''"

definition upper_char :: "char \<Rightarrow> char" where
  "upper_char c = (case map_of (zip lower_letters upper_letters) c of Some u \<Rightarrow> u | None \<Rightarrow> c)"

definition lower_char :: "char \<Rightarrow> char" where
  "lower_char c = (case map_of (zip upper_letters lower_letters) c of Some l \<Rightarrow> l | None \<Rightarrow> c)"

definition toUpperCase :: "runtime \<Rightarrow> string \<Rightarrow> string" where
  "toUpperCase rt s = (if is_ascii s then map upper_char s else upper_beyond_ascii rt s)"

definition toLowerCase :: "runtime \<Rightarrow> string \<Rightarrow> string" where
  "toLowerCase rt s = (if is_ascii s then map lower_char s else lower_beyond_ascii rt s)"

text \<open>\<open>s.includes(sub)\<close>: \<open>sub\<close> occurs in \<open>s\<close> as a contiguous run.\<close>

fun js_includes :: "string \<Rightarrow> string \<Rightarrow> bool" where
  "js_includes [] sub = (sub = [])"
| "js_includes (c # cs) sub = (prefix sub (c # cs) \<or> js_includes cs sub)"

section \<open>The normalizer (services/mqttService.js)\<close>

text \<open>\<open>isFiniteNumber(v)\<close>: \<open>typeof v === 'number' && Number.isFinite(v)\<close>.\<close>

fun isFiniteNumber :: "jsval \<Rightarrow> bool" where
  "isFiniteNumber (Some (JNum (Fin x))) = True"
| "isFiniteNumber v = False"

text \<open>\<open>pickNumber(...candidates)\<close>: the first candidate that is a finite number
  (\<open>Number(v)\<close> of a number is the number), \<open>undefined\<close> when there is none.\<close>

fun pickNumber :: "jsval list \<Rightarrow> jsval" where
  "pickNumber [] = None"
| "pickNumber (v # vs) = (if isFiniteNumber v then v else pickNumber vs)"

text \<open>\<open>toISO(v)\<close>: the receipt time for a falsy or unparseable \<open>v\<close>; \<open>new Date(v)\<close>
  converts \<open>v\<close> to a primitive first, which may throw.\<close>

fun toISO :: "runtime \<Rightarrow> jsval \<Rightarrow> error + string" where
  "toISO rt None = Inr (now_iso rt 0)"
| "toISO rt (Some j) =
     (if \<not> truthy_json j then Inr (now_iso rt 0)
      else if to_primitive_throws j then Inl TypeError
      else Inr (case date_iso rt j of None \<Rightarrow> now_iso rt 0 | Some d \<Rightarrow> d))"

definition is_digit :: "char \<Rightarrow> bool" where
  "is_digit c = (c \<in> set ''0123456789'')"

text \<open>The regular expression \<open>/HOME_\d{2}/\<close> at the start of a string.\<close>

fun home_here :: "string \<Rightarrow> bool" where
  "home_here (a # b # c # d # e # x # y # rest) =
     ([a, b, c, d, e] = ''HOME_'' \<and> is_digit x \<and> is_digit y)"
| "home_here s = False"

text \<open>\<open>s.match(/HOME_\d{2}/)\<close>: the leftmost match, its text being \<open>m[0]\<close>.\<close>

fun match_home :: "string \<Rightarrow> string option" where
  "match_home [] = None"
| "match_home (c # cs) =
     (if home_here (c # cs) then Some (take 7 (c # cs)) else match_home cs)"

definition extractHomeFromDevice :: "runtime \<Rightarrow> jsval \<Rightarrow> error + jsval" where
  "extractHomeFromDevice rt deviceId =
     (if \<not> truthy deviceId then Inr None
      else (case js_String rt deviceId of
              Inl e \<Rightarrow> Inl e
            | Inr s \<Rightarrow>
                (case match_home s of
                   Some m \<Rightarrow> Inr (Some (JStr m))
                 | None \<Rightarrow> Inr None)))"

text \<open>\<open>raw.homeId || raw.home || raw.h || extractHomeFromDevice(raw.deviceId)\<close>: the
  call is made only when the three aliases are falsy.\<close>

definition resolve_homeId :: "runtime \<Rightarrow> json \<Rightarrow> error + jsval" where
  "resolve_homeId rt raw =
     (if truthy (js_or (js_or (js_get raw ''homeId'') (js_get raw ''home'')) (js_get raw ''h''))
      then Inr (js_or (js_or (js_get raw ''homeId'') (js_get raw ''home'')) (js_get raw ''h''))
      else extractHomeFromDevice rt (js_get raw ''deviceId''))"

text \<open>\<open>raw.stream && String(raw.stream).toUpperCase()\<close>: the conversion is made only
  for a truthy \<open>raw.stream\<close>.\<close>

definition explicit_stream :: "runtime \<Rightarrow> json \<Rightarrow> error + jsval" where
  "explicit_stream rt raw =
     (if \<not> truthy (js_get raw ''stream'') then Inr (js_get raw ''stream'')
      else (case js_String rt (js_get raw ''stream'') of
              Inl e \<Rightarrow> Inl e
            | Inr s \<Rightarrow> Inr (Some (JStr (toUpperCase rt s)))))"

definition inferStream :: "runtime \<Rightarrow> string \<Rightarrow> json \<Rightarrow> error + jsval" where
  "inferStream rt topic raw =
     (let t = toLowerCase rt topic in
      if js_includes t ''/airnode/'' then Inr (Some (JStr ''AIR''))
      else if js_includes t ''/stovenode/'' then Inr (Some (JStr ''STOVE''))
      else (case explicit_stream rt raw of
              Inl e \<Rightarrow> Inl e
            | Inr a \<Rightarrow> Inr (js_or a None)))"

text \<open>\<open>(raw.stream && String(raw.stream).toUpperCase()) || inferStream(topic, raw)\<close>:
  \<open>inferStream\<close> is called only when the left operand is falsy.\<close>

definition resolve_stream :: "runtime \<Rightarrow> string \<Rightarrow> json \<Rightarrow> error + jsval" where
  "resolve_stream rt topic raw =
     (case explicit_stream rt raw of
        Inl e \<Rightarrow> Inl e
      | Inr a \<Rightarrow> if truthy a then Inr a else inferStream rt topic raw)"

record payload =
  co2 :: jsval
  co :: jsval
  pm25 :: jsval
  pm10 :: jsval
  temperature_c :: jsval
  humidity_pct :: jsval
  stove_temp_c :: jsval
  fanOn :: jsval
  buzzerOn :: jsval
  profile :: jsval
  windowOpen :: jsval

record msg =
  ts :: string
  homeId :: jsval
  deviceId :: jsval
  stream :: jsval
  payload :: payload

text \<open>\<open>typeof v === 'boolean' ? v : undefined\<close>.\<close>

definition strict_bool :: "jsval \<Rightarrow> jsval" where
  "strict_bool v = (if typeof v = ''boolean'' then v else None)"

text \<open>\<open>(raw.payload && typeof raw.payload === 'object') ? raw.payload : raw\<close>.\<close>

definition source_of :: "json \<Rightarrow> json" where
  "source_of raw =
     (case js_get raw ''payload'' of
        None \<Rightarrow> raw
      | Some p \<Rightarrow> if truthy_json p \<and> typeof_json p = ''object'' then p else raw)"

definition canonical_payload :: "json \<Rightarrow> payload" where
  "canonical_payload src =
     \<lparr> co2 = pickNumber [js_get src ''co2'', js_get src ''co2_ppm''],
       co = pickNumber [js_get src ''co'', js_get src ''co_ppm''],
       pm25 = pickNumber [js_get src ''pm25'', js_get src ''pm25_ugm3'',
                          js_get src ''pm2_5'', js_get src ''pm2_5_ugm3''],
       pm10 = pickNumber [js_get src ''pm10'', js_get src ''pm10_ugm3''],
       temperature_c = pickNumber [js_get src ''temperature_c'', js_get src ''temp_c'',
                                   js_get src ''temperature''],
       humidity_pct = pickNumber [js_get src ''humidity_pct'', js_get src ''humidity''],
       stove_temp_c = pickNumber [js_get src ''stove_temp_c'', js_get src ''stove_temp''],
       fanOn = strict_bool (js_get src ''fanOn''),
       buzzerOn = strict_bool (js_get src ''buzzerOn''),
       profile = js_get src ''profile'',
       windowOpen = strict_bool (js_get src ''windowOpen'') \<rparr>"

text \<open>The presence heuristic, applied when the stream is still falsy.\<close>

definition stream_by_presence :: "payload \<Rightarrow> jsval \<Rightarrow> jsval" where
  "stream_by_presence p s =
     (if \<not> truthy s then
        (if isFiniteNumber (stove_temp_c p) then Some (JStr ''STOVE'')
         else if isFiniteNumber (co2 p) \<or> isFiniteNumber (co p) \<or>
                 isFiniteNumber (pm25 p) \<or> isFiniteNumber (pm10 p)
              then Some (JStr ''AIR'')
         else s)
      else s)"

text \<open>\<open>normalizeMessage(topic, raw)\<close>. Its first statement reads \<open>raw.ts\<close>, which throws
  a TypeError when the parsed body is \<open>null\<close>; then \<open>toISO\<close>, the home and the stream are
  computed in this order, each of which may throw.\<close>

definition normalizeMessage :: "runtime \<Rightarrow> string \<Rightarrow> json \<Rightarrow> error + msg" where
  "normalizeMessage rt topic raw =
     (if raw = JNull then Inl TypeError
      else
        (case toISO rt (js_get raw ''ts'') of
           Inl e \<Rightarrow> Inl e
         | Inr t \<Rightarrow>
             (case resolve_homeId rt raw of
                Inl e \<Rightarrow> Inl e
              | Inr h \<Rightarrow>
                  (case resolve_stream rt topic raw of
                     Inl e \<Rightarrow> Inl e
                   | Inr s \<Rightarrow>
                       Inr \<lparr> ts = t,
                             homeId = h,
                             deviceId = js_or (js_get raw ''deviceId'') (js_get raw ''device''),
                             stream = stream_by_presence (canonical_payload (source_of raw)) s,
                             payload = canonical_payload (source_of raw) \<rparr>))))"

text \<open>The bodies on which \<open>normalizeMessage\<close> returns a record: not \<open>null\<close>, with a \<open>ts\<close>
  and a \<open>stream\<close> that convert and, when no alias gives the home, a \<open>deviceId\<close> that
  converts.\<close>

definition normalizable :: "json \<Rightarrow> bool" where
  "normalizable raw =
     (raw \<noteq> JNull \<and> converts (js_get raw ''ts'') \<and>
      (truthy (js_get raw ''homeId'') \<or> truthy (js_get raw ''home'') \<or>
       truthy (js_get raw ''h'') \<or> converts (js_get raw ''deviceId'')) \<and>
      converts (js_get raw ''stream''))"

section \<open>The threshold checks of maybePublishAlerts\<close>

datatype alert_type = CO2 | CO | PM2_5 | STOVE_TEMP

datatype alert_level = warn | danger

record alert_item =
  item_type :: alert_type
  item_level :: alert_level
  item_value :: real
  item_limit :: real

text \<open>The number a field holds when \<open>isFiniteNumber\<close> accepts it.\<close>

fun finite_num :: "jsval \<Rightarrow> real option" where
  "finite_num (Some (JNum (Fin x))) = Some x"
| "finite_num v = None"

text \<open>The four \<open>if\<close> statements that fill the array \<open>alerts\<close>, in their order.\<close>

definition co2_alerts :: "payload \<Rightarrow> alert_item list" where
  "co2_alerts p =
     (case finite_num (co2 p) of
        None \<Rightarrow> []
      | Some x \<Rightarrow>
          if x > 1000
          then [\<lparr> item_type = CO2, item_level = (if x > 1500 then danger else warn),
                  item_value = x, item_limit = 1000 \<rparr>]
          else [])"

definition co_alerts :: "payload \<Rightarrow> alert_item list" where
  "co_alerts p =
     (case finite_num (co p) of
        None \<Rightarrow> []
      | Some x \<Rightarrow>
          if x > 35
          then [\<lparr> item_type = CO, item_level = danger, item_value = x, item_limit = 35 \<rparr>]
          else [])"

definition pm25_alerts :: "payload \<Rightarrow> alert_item list" where
  "pm25_alerts p =
     (case finite_num (pm25 p) of
        None \<Rightarrow> []
      | Some x \<Rightarrow>
          if x > 35
          then [\<lparr> item_type = PM2_5, item_level = (if x > 100 then danger else warn),
                  item_value = x, item_limit = 35 \<rparr>]
          else [])"

definition stove_alerts :: "payload \<Rightarrow> alert_item list" where
  "stove_alerts p =
     (case finite_num (stove_temp_c p) of
        None \<Rightarrow> []
      | Some x \<Rightarrow>
          if x > 250
          then [\<lparr> item_type = STOVE_TEMP, item_level = danger,
                  item_value = x, item_limit = 250 \<rparr>]
          else [])"

definition alerts_of :: "payload \<Rightarrow> alert_item list" where
  "alerts_of p = co2_alerts p @ co_alerts p @ pm25_alerts p @ stove_alerts p"

section \<open>Observable effects\<close>

text \<open>
  Module state: \<open>client\<close> of services/mqttService.js (set by \<open>startMqtt\<close>) and \<open>io\<close> of
  the sockets module (set by \<open>init\<close>); each is \<open>undefined\<close> until then.
\<close>

datatype io_server = IoServer

record modules =
  client :: bool
  io :: "io_server option"

text \<open>The object \<open>payload\<close> that \<open>maybePublishAlerts\<close> builds.\<close>

record alert_record =
  ar_homeId :: jsval
  ar_deviceId :: jsval
  ar_stream :: jsval
  ar_ts :: string
  ar_alerts :: "alert_item list"

text \<open>The object \<open>payload\<close> that \<open>sendDeviceControl\<close> builds.\<close>

record control_payload =
  cp_deviceId :: jsval
  cp_homeId :: jsval
  cp_command :: jsval
  cp_ts :: string

text \<open>The argument of \<open>saveTelemetry\<close>.\<close>

record telemetry =
  t_homeId :: jsval
  t_deviceId :: jsval
  t_stream :: jsval
  t_payload :: payload
  t_ts :: string
  t_deviceRef :: jsval

text \<open>A message body handed to the broker is the JSON text of one of the two objects; an
  object handed to the sockets module is a parsed value or an alert object.\<close>

datatype bus_body = AlertBody alert_record | ControlBody control_payload

datatype fan_obj = Plain jsval | Derived alert_record

datatype console_line =
    NonJson | Triage | MissingIds | NoStream | Saved | AlertPublished | MessageError error

text \<open>
  What a run does to the outside, in order: a console line, a call of
  \<open>upsertFromIngest\<close> or \<open>saveTelemetry\<close>, a call of one of the sockets module's emit
  functions (\<open>FanoutCall\<close> with the event name), an emission of the socket server to a room
  (\<open>IoEmit room name obj\<close>), and \<open>client.publish(topic, body)\<close>.
\<close>

datatype event =
    Console console_line
  | UpsertCall jsval jsval jsval
  | SaveCall telemetry
  | FanoutCall string fan_obj
  | IoEmit string string fan_obj
  | BusPublish string bus_body

section \<open>The sockets module\<close>

definition getIO :: "modules \<Rightarrow> error + io_server" where
  "getIO st =
     (case io st of
        None \<Rightarrow> Inl (Err ''Socket.IO not initialized'' None)
      | Some s \<Rightarrow> Inr s)"

text \<open>\<open>obj.homeId\<close>, which throws when \<open>obj\<close> is \<open>null\<close> or \<open>undefined\<close>.\<close>

fun fan_homeId :: "fan_obj \<Rightarrow> error + jsval" where
  "fan_homeId (Plain None) = Inl TypeError"
| "fan_homeId (Plain (Some JNull)) = Inl TypeError"
| "fan_homeId (Plain (Some j)) = Inr (js_get j ''homeId'')"
| "fan_homeId (Derived a) = Inr (ar_homeId a)"

text \<open>The room of a home, \<open>`home:${obj.homeId}`\<close>: reading the property and converting
  it may each throw.\<close>

definition home_room :: "runtime \<Rightarrow> fan_obj \<Rightarrow> error + string" where
  "home_room rt obj =
     (case fan_homeId obj of
        Inl e \<Rightarrow> Inl e
      | Inr h \<Rightarrow>
          (case js_String rt h of
             Inl e \<Rightarrow> Inl e
           | Inr s \<Rightarrow> Inr (''home:'' @ s)))"

text \<open>The three emit functions: nothing without a server; otherwise one emission to the
  home's room and one to the administrators' room. The room name is computed before the
  first emission, so a throw leaves no emission behind.\<close>

definition emitTelemetry :: "runtime \<Rightarrow> modules \<Rightarrow> fan_obj \<Rightarrow> error + event list" where
  "emitTelemetry rt st doc =
     (case io st of
        None \<Rightarrow> Inr []
      | Some s \<Rightarrow>
          (case home_room rt doc of
             Inl e \<Rightarrow> Inl e
           | Inr room \<Rightarrow> Inr [IoEmit room ''telemetry'' doc,
                              IoEmit ''admin'' ''telemetry'' doc]))"

definition emitAlert :: "runtime \<Rightarrow> modules \<Rightarrow> fan_obj \<Rightarrow> error + event list" where
  "emitAlert rt st alertObj =
     (case io st of
        None \<Rightarrow> Inr []
      | Some s \<Rightarrow>
          (case home_room rt alertObj of
             Inl e \<Rightarrow> Inl e
           | Inr room \<Rightarrow> Inr [IoEmit room ''alert'' alertObj,
                              IoEmit ''admin'' ''alert'' alertObj]))"

definition emitCommand :: "runtime \<Rightarrow> modules \<Rightarrow> fan_obj \<Rightarrow> error + event list" where
  "emitCommand rt st cmdObj =
     (case io st of
        None \<Rightarrow> Inr []
      | Some s \<Rightarrow>
          (case home_room rt cmdObj of
             Inl e \<Rightarrow> Inl e
           | Inr room \<Rightarrow> Inr [IoEmit room ''command'' cmdObj,
                              IoEmit ''admin'' ''command'' cmdObj]))"

text \<open>\<open>try { ... } catch {}\<close> around a call: what it emitted, the error dropped.\<close>

fun swallow :: "error + event list \<Rightarrow> event list" where
  "swallow (Inl e) = []"
| "swallow (Inr es) = es"

section \<open>The ingestion router (the message handler of startMqtt)\<close>

text \<open>The object \<open>payload\<close> of \<open>maybePublishAlerts\<close>; the clock is read a second time
  for its \<open>ts\<close>.\<close>

definition alert_payload :: "runtime \<Rightarrow> msg \<Rightarrow> alert_record" where
  "alert_payload rt m =
     \<lparr> ar_homeId = homeId m, ar_deviceId = deviceId m, ar_stream = stream m,
       ar_ts = now_iso rt 1, ar_alerts = alerts_of (payload m) \<rparr>"

text \<open>\<open>maybePublishAlerts(msg)\<close>: nothing without a client or without alerts; otherwise
  the publish on \<open>shega/alerts\<close>, a console line, and the call of \<open>sockets.emitAlert\<close> in
  its \<open>try\<close>.\<close>

definition maybePublishAlerts :: "runtime \<Rightarrow> modules \<Rightarrow> msg \<Rightarrow> event list" where
  "maybePublishAlerts rt st m =
     (if \<not> client st then []
      else if alerts_of (payload m) \<noteq> [] then
        [BusPublish ''shega/alerts'' (AlertBody (alert_payload rt m)),
         Console AlertPublished,
         FanoutCall ''alert'' (Derived (alert_payload rt m))]
        @ swallow (emitAlert rt st (Derived (alert_payload rt m)))
      else [])"

text \<open>The external collaborators: the device registry's \<open>upsertFromIngest\<close> and the
  telemetry store's \<open>saveTelemetry\<close>, each returning a document or throwing.\<close>

record collaborators =
  upsertFromIngest :: "jsval \<Rightarrow> jsval \<Rightarrow> jsval \<Rightarrow> error + jsval"
  saveTelemetry :: "telemetry \<Rightarrow> error + jsval"

text \<open>\<open>device?._id\<close>.\<close>

fun device_ref :: "jsval \<Rightarrow> jsval" where
  "device_ref None = None"
| "device_ref (Some JNull) = None"
| "device_ref (Some d) = js_get d ''_id''"

text \<open>\<open>doc.toObject ? doc.toObject() : doc\<close>: the stored document as a plain object; the
  read throws when \<open>doc\<close> is \<open>null\<close> or \<open>undefined\<close>.\<close>

fun plain_doc :: "jsval \<Rightarrow> error + jsval" where
  "plain_doc None = Inl TypeError"
| "plain_doc (Some JNull) = Inl TypeError"
| "plain_doc (Some d) = Inr (Some d)"

text \<open>\<open>try { sockets.emitTelemetry(doc.toObject ? doc.toObject() : doc); } catch {}\<close>.\<close>

definition push_telemetry :: "runtime \<Rightarrow> modules \<Rightarrow> jsval \<Rightarrow> event list" where
  "push_telemetry rt st doc =
     (case plain_doc doc of
        Inl e \<Rightarrow> []
      | Inr d \<Rightarrow> FanoutCall ''telemetry'' (Plain d) # swallow (emitTelemetry rt st (Plain d)))"

text \<open>The argument of \<open>saveTelemetry\<close>, built from the message and the device that
  \<open>upsertFromIngest\<close> returned.\<close>

definition telemetry_doc :: "msg \<Rightarrow> jsval \<Rightarrow> telemetry" where
  "telemetry_doc m device =
     \<lparr> t_homeId = homeId m, t_deviceId = deviceId m, t_stream = stream m,
       t_payload = payload m, t_ts = ts m, t_deviceRef = device_ref device \<rparr>"

text \<open>The body of the outer \<open>try\<close>: upsert, persist, push, then alert; a throw of either
  collaborator ends it in the \<open>catch\<close> with one console line.\<close>

definition persist_and_alert ::
  "runtime \<Rightarrow> collaborators \<Rightarrow> modules \<Rightarrow> msg \<Rightarrow> event list" where
  "persist_and_alert rt ext st m =
     UpsertCall (homeId m) (deviceId m) (stream m) #
     (case upsertFromIngest ext (homeId m) (deviceId m) (stream m) of
        Inl e \<Rightarrow> [Console (MessageError e)]
      | Inr device \<Rightarrow>
          SaveCall (telemetry_doc m device) #
          (case saveTelemetry ext (telemetry_doc m device) of
             Inl e \<Rightarrow> [Console (MessageError e)]
           | Inr doc \<Rightarrow>
               Console Saved # push_telemetry rt st doc @ maybePublishAlerts rt st m))"

text \<open>
  The triage line \<open>console.log(`... ${topic} :: ${msg.homeId}/${msg.deviceId}
  [${msg.stream}] @ ${msg.ts}`)\<close>: the template converts the home, the device and the
  stream to text, in this order, and stands outside every \<open>try\<close>.
\<close>

definition triage_line :: "runtime \<Rightarrow> msg \<Rightarrow> error + event list" where
  "triage_line rt m =
     (case js_String rt (homeId m) of
        Inl e \<Rightarrow> Inl e
      | Inr h \<Rightarrow>
          (case js_String rt (deviceId m) of
             Inl e \<Rightarrow> Inl e
           | Inr d \<Rightarrow>
               (case js_String rt (stream m) of
                  Inl e \<Rightarrow> Inl e
                | Inr s \<Rightarrow> Inr [Console Triage])))"

text \<open>
  The handler \<open>client.on('message', async (topic, buf) => ...)\<close>: the effects of one
  message, and the error the handler's promise rejects with, if any (the call of
  \<open>normalizeMessage\<close> and the triage line stand outside every \<open>try\<close>). \<open>on_parsed\<close> is the
  handler from its call of \<open>normalizeMessage\<close> on, \<open>on_message\<close> the whole of it. The
  console's own formatting of an object argument does not convert it with \<open>toString\<close>, and
  \<open>client.publish\<close> hands the message to the transport without throwing.
\<close>

definition on_parsed ::
  "runtime \<Rightarrow> collaborators \<Rightarrow> modules \<Rightarrow> string \<Rightarrow> json \<Rightarrow> event list \<times> error option" where
  "on_parsed rt ext st topic raw =
     (case normalizeMessage rt topic raw of
        Inl e \<Rightarrow> ([], Some e)
      | Inr m \<Rightarrow>
          (case triage_line rt m of
             Inl e \<Rightarrow> ([], Some e)
           | Inr line \<Rightarrow>
               if topic = ''shega/alerts'' then
                 (line @ FanoutCall ''alert'' (Plain (Some raw)) #
                    swallow (emitAlert rt st (Plain (Some raw))), None)
               else if \<not> truthy (homeId m) \<or> \<not> truthy (deviceId m) then
                 (line @ [Console MissingIds], None)
               else if \<not> truthy (stream m) then
                 (line @ [Console NoStream], None)
               else (line @ persist_and_alert rt ext st m, None)))"

definition on_message ::
  "runtime \<Rightarrow> collaborators \<Rightarrow> modules \<Rightarrow> string \<Rightarrow> string \<Rightarrow> event list \<times> error option" where
  "on_message rt ext st topic buf =
     (case json_parse rt buf of
        None \<Rightarrow> ([Console NonJson], None)
      | Some raw \<Rightarrow> on_parsed rt ext st topic raw)"

text \<open>The handler runs once per delivered message and changes no module state.\<close>

fun process_all ::
  "runtime \<Rightarrow> collaborators \<Rightarrow> modules \<Rightarrow> (string \<times> string) list \<Rightarrow> event list" where
  "process_all rt ext st [] = []"
| "process_all rt ext st ((topic, buf) # rest) =
     fst (on_message rt ext st topic buf) @ process_all rt ext st rest"

section \<open>Kinds of effects\<close>

fun is_io_emit :: "event \<Rightarrow> bool" where
  "is_io_emit (IoEmit room name obj) = True"
| "is_io_emit e = False"

fun is_bus_publish :: "event \<Rightarrow> bool" where
  "is_bus_publish (BusPublish topic body) = True"
| "is_bus_publish e = False"

fun is_alert_push :: "event \<Rightarrow> bool" where
  "is_alert_push (FanoutCall name obj) = (name = ''alert'')"
| "is_alert_push e = False"

fun is_alert_emit :: "event \<Rightarrow> bool" where
  "is_alert_emit (IoEmit room name obj) = (name = ''alert'')"
| "is_alert_emit e = False"

text \<open>An alert leaving the router: on the bus, handed to the sockets module, or emitted
  to a room.\<close>

definition is_alert_out :: "event \<Rightarrow> bool" where
  "is_alert_out e = (is_bus_publish e \<or> is_alert_push e \<or> is_alert_emit e)"

section \<open>The command dispatcher (services/deviceControlService.js)\<close>

text \<open>\<open>publish(topic, json)\<close> of services/mqttService.js.\<close>

definition publish :: "modules \<Rightarrow> string \<Rightarrow> bus_body \<Rightarrow> error + event list" where
  "publish st topic body =
     (if \<not> client st then Inl (Err ''MQTT not started'' None)
      else Inr [BusPublish topic body])"

text \<open>What the dispatcher reaches outside: \<open>Device.findOne({ deviceId }).lean()\<close>, which
  yields a document, \<open>null\<close>, or throws; and \<open>getMqtt()\<close>, which is \<open>None\<close> when the module
  cannot be loaded or exports no function \<open>publish\<close>.\<close>

record dispatch_env =
  findOne :: "jsval \<Rightarrow> error + jsval"
  getMqtt :: "(string \<Rightarrow> bus_body \<Rightarrow> error + event list) option"

record dispatch_result =
  r_ok :: bool
  r_topic :: string
  r_payload :: control_payload

text \<open>\<open>device.type.toLowerCase()\<close>: a TypeError unless the type is a string.\<close>

fun lower_type :: "runtime \<Rightarrow> jsval \<Rightarrow> error + string" where
  "lower_type rt (Some (JStr s)) = Inr (toLowerCase rt s)"
| "lower_type rt v = Inl TypeError"

text \<open>\<open>sendDeviceControl(deviceId, command)\<close>: its effects and its result or thrown
  error. The guard \<open>!device\<close> passes only a truthy value; a device document is an object,
  so its properties can be read.\<close>

definition sendDeviceControl ::
  "runtime \<Rightarrow> dispatch_env \<Rightarrow> jsval \<Rightarrow> jsval \<Rightarrow> event list \<times> (error + dispatch_result)" where
  "sendDeviceControl rt env devId command =
     (case findOne env devId of
        Inl e \<Rightarrow> ([], Inl e)
      | Inr found \<Rightarrow>
          (case found of
             None \<Rightarrow> ([], Inl (Err ''Device not found'' (Some 404)))
           | Some device \<Rightarrow>
               if \<not> truthy_json device then ([], Inl (Err ''Device not found'' (Some 404)))
               else
                 (case getMqtt env of
                    None \<Rightarrow> ([], Inl (Err ''MQTT publisher not available'' (Some 500)))
                  | Some mqtt_publish \<Rightarrow>
                      (case lower_type rt (js_get device ''type'') of
                         Inl e \<Rightarrow> ([], Inl e)
                       | Inr lowerType \<Rightarrow>
                           (case mqtt_publish (''shega/'' @ lowerType @ ''/control'')
                                   (ControlBody
                                      \<lparr> cp_deviceId = js_get device ''deviceId'',
                                        cp_homeId = js_get device ''homeId'',
                                        cp_command = command,
                                        cp_ts = now_iso rt 0 \<rparr>) of
                              Inl e \<Rightarrow> ([], Inl e)
                            | Inr evs \<Rightarrow>
                                (evs,
                                 Inr \<lparr> r_ok = True,
                                       r_topic = ''shega/'' @ lowerType @ ''/control'',
                                       r_payload =
                                         \<lparr> cp_deviceId = js_get device ''deviceId'',
                                           cp_homeId = js_get device ''homeId'',
                                           cp_command = command,
                                           cp_ts = now_iso rt 0 \<rparr> \<rparr>))))))"

section \<open>Inputs for the examples\<close>

text \<open>
  A runtime for the examples below. Its \<open>JSON.parse\<close> is given on the three literal texts
  and rejects the one other text the examples feed it (\<open>{oops\<close>, which is no JSON); the
  examples turn no finite number into text and map the case of ASCII texts only; its clock
  shows one instant, and the one date text it is asked to read is that instant's.
\<close>

definition sample_runtime :: runtime where
  "sample_runtime =
     \<lparr> json_parse = (\<lambda>s. if s = ''null'' then Some JNull
                          else if s = ''true'' then Some (JBool True)
                          else if s = ''false'' then Some (JBool False)
                          else None),
       num_str = (\<lambda>n. case n of Fin x \<Rightarrow> ''0'' | PosInf \<Rightarrow> ''Infinity''
                               | NegInf \<Rightarrow> ''-Infinity'' | NaN \<Rightarrow> ''NaN''),
       date_iso = (\<lambda>j. if j = JStr ''2024-01-01T00:00:00Z''
                        then Some ''2024-01-01T00:00:00.000Z'' else None),
       now_iso = (\<lambda>n. ''2024-01-01T00:00:00.000Z''),
       upper_beyond_ascii = (\<lambda>s. s),
       lower_beyond_ascii = (\<lambda>s. s) \<rparr>"

text \<open>Collaborators that succeed: the registry returns a device document, the store
  returns the stored document.\<close>

definition sample_store :: collaborators where
  "sample_store =
     \<lparr> upsertFromIngest = (\<lambda>h d s. Inr (Some (JObj [(''_id'', JStr ''dev-1'')]))),
       saveTelemetry = (\<lambda>t. Inr (Some (JObj [(''_id'', JStr ''doc-1'')]))) \<rparr>"

text \<open>A store whose append throws, and a registry whose upsert throws.\<close>

definition failing_store :: collaborators where
  "failing_store =
     \<lparr> upsertFromIngest = (\<lambda>h d s. Inr (Some (JObj [(''_id'', JStr ''dev-1'')]))),
       saveTelemetry = (\<lambda>t. Inl (Err ''write failed'' None)) \<rparr>"

definition failing_registry :: collaborators where
  "failing_registry =
     \<lparr> upsertFromIngest = (\<lambda>h d s. Inl (Err ''registry down'' None)),
       saveTelemetry = (\<lambda>t. Inr (Some (JObj [(''_id'', JStr ''doc-1'')]))) \<rparr>"

text \<open>A registry that knows one stove node, with the publisher of services/mqttService.js
  on a started client.\<close>

definition sample_device :: json where
  "sample_device =
     JObj [(''deviceId'', JStr ''STOVE_HOME_02''), (''homeId'', JStr ''HOME_02''),
           (''type'', JStr ''STOVENODE'')]"

definition sample_dispatch_env :: dispatch_env where
  "sample_dispatch_env =
     \<lparr> findOne = (\<lambda>d. if d = Some (JStr ''STOVE_HOME_02'') then Inr (Some sample_device)
                        else Inr (Some JNull)),
       getMqtt = Some (publish \<lparr> client = True, io = None \<rparr>) \<rparr>"

section \<open>The alias rules, as the specification words them\<close>



section \<open>Properties of the threshold checks\<close>

lemma type_filter_alerts:
  "filter (\<lambda>i. item_type i = CO2) (alerts_of p) = co2_alerts p"
  "filter (\<lambda>i. item_type i = CO) (alerts_of p) = co_alerts p"
  "filter (\<lambda>i. item_type i = PM2_5) (alerts_of p) = pm25_alerts p"
  "filter (\<lambda>i. item_type i = STOVE_TEMP) (alerts_of p) = stove_alerts p"
  by (simp_all add: alerts_of_def co2_alerts_def co_alerts_def pm25_alerts_def
      stove_alerts_def split: option.splits)

text \<open>
  C1, as the code has it. For every payload \<open>p\<close> and each metric, the items of that
  metric's type among \<open>alerts_of p\<close> are: none when the field is not a finite number;
  exactly one \<open>danger\<close> item (and no \<open>warn\<close> item) when the value is strictly greater than
  the danger threshold (CO2 1500, CO 35, PM2.5 100, stove temperature 250); otherwise, for
  CO2 and PM2.5, exactly one \<open>warn\<close> item when the value is strictly greater than the warn
  threshold (1000, 35); otherwise none. The limit an item reports is 1000 for CO2, 35 for CO
  and PM2.5, 250 for the stove temperature. In particular every payload with
  \<open>co2 = 1600\<close> yields exactly the CO2 item \<open>danger, 1600, 1000\<close>.
\<close>

theorem C1_threshold_rule:
  "filter (\<lambda>i. item_type i = CO2) (alerts_of p) =
     (case finite_num (co2 p) of
        None \<Rightarrow> []
      | Some x \<Rightarrow>
          if x > 1500
          then [\<lparr> item_type = CO2, item_level = danger, item_value = x, item_limit = 1000 \<rparr>]
          else if x > 1000
          then [\<lparr> item_type = CO2, item_level = warn, item_value = x, item_limit = 1000 \<rparr>]
          else [])
   \<and> filter (\<lambda>i. item_type i = CO) (alerts_of p) =
     (case finite_num (co p) of
        None \<Rightarrow> []
      | Some x \<Rightarrow>
          if x > 35
          then [\<lparr> item_type = CO, item_level = danger, item_value = x, item_limit = 35 \<rparr>]
          else [])
   \<and> filter (\<lambda>i. item_type i = PM2_5) (alerts_of p) =
     (case finite_num (pm25 p) of
        None \<Rightarrow> []
      | Some x \<Rightarrow>
          if x > 100
          then [\<lparr> item_type = PM2_5, item_level = danger, item_value = x, item_limit = 35 \<rparr>]
          else if x > 35
          then [\<lparr> item_type = PM2_5, item_level = warn, item_value = x, item_limit = 35 \<rparr>]
          else [])
   \<and> filter (\<lambda>i. item_type i = STOVE_TEMP) (alerts_of p) =
     (case finite_num (stove_temp_c p) of
        None \<Rightarrow> []
      | Some x \<Rightarrow>
          if x > 250
          then [\<lparr> item_type = STOVE_TEMP, item_level = danger, item_value = x,
                  item_limit = 250 \<rparr>]
          else [])
   \<and> filter (\<lambda>i. item_type i = CO2) (alerts_of (p\<lparr> co2 := Some (JNum (Fin 1600)) \<rparr>)) =
       [\<lparr> item_type = CO2, item_level = danger, item_value = 1600, item_limit = 1000 \<rparr>]"
proof -
  have a: "co2_alerts p =
     (case finite_num (co2 p) of
        None \<Rightarrow> []
      | Some x \<Rightarrow>
          if x > 1500
          then [\<lparr> item_type = CO2, item_level = danger, item_value = x, item_limit = 1000 \<rparr>]
          else if x > 1000
          then [\<lparr> item_type = CO2, item_level = warn, item_value = x, item_limit = 1000 \<rparr>]
          else [])"
    by (simp add: co2_alerts_def split: option.splits)
  have b: "pm25_alerts p =
     (case finite_num (pm25 p) of
        None \<Rightarrow> []
      | Some x \<Rightarrow>
          if x > 100
          then [\<lparr> item_type = PM2_5, item_level = danger, item_value = x, item_limit = 35 \<rparr>]
          else if x > 35
          then [\<lparr> item_type = PM2_5, item_level = warn, item_value = x, item_limit = 35 \<rparr>]
          else [])"
    by (simp add: pm25_alerts_def split: option.splits)
  have c: "co2_alerts (p\<lparr> co2 := Some (JNum (Fin 1600)) \<rparr>) =
       [\<lparr> item_type = CO2, item_level = danger, item_value = 1600, item_limit = 1000 \<rparr>]"
    by (simp add: co2_alerts_def)
  show ?thesis
    unfolding type_filter_alerts a b c
    by (simp add: co_alerts_def stove_alerts_def)
qed

text \<open>C1 at the reading \<open>co2 = 1700, pm25 = 40\<close>: one CO2 danger item, one PM2.5 warn
  item.\<close>

theorem C1_threshold_rule_witness:
  "filter (\<lambda>i. item_type i = CO2)
     (alerts_of (canonical_payload
        (JObj [(''co2'', JNum (Fin 1700)), (''pm25'', JNum (Fin 40))]))) =
     [\<lparr> item_type = CO2, item_level = danger, item_value = 1700, item_limit = 1000 \<rparr>]
   \<and> filter (\<lambda>i. item_type i = PM2_5)
     (alerts_of (canonical_payload
        (JObj [(''co2'', JNum (Fin 1700)), (''pm25'', JNum (Fin 40))]))) =
     [\<lparr> item_type = PM2_5, item_level = warn, item_value = 40, item_limit = 35 \<rparr>]"
  using C1_threshold_rule
    [of "canonical_payload (JObj [(''co2'', JNum (Fin 1700)), (''pm25'', JNum (Fin 40))])"]
  by (simp add: canonical_payload_def)

text \<open>
  C1 as the specification words it (greater than or equal) fails at the thresholds
  themselves: a reading with \<open>co2 = 1500\<close> and \<open>co = 35\<close> yields a single CO2 item of level
  \<open>warn\<close>, where the specification asks for a CO2 \<open>danger\<close> item and a CO \<open>danger\<close> item.
\<close>

theorem C1_boundary_counterexample:
  "alerts_of (canonical_payload (JObj [(''co2'', JNum (Fin 1500)), (''co'', JNum (Fin 35))])) =
     [\<lparr> item_type = CO2, item_level = warn, item_value = 1500, item_limit = 1000 \<rparr>]"
  by (simp add: canonical_payload_def alerts_of_def co2_alerts_def co_alerts_def
      pm25_alerts_def stove_alerts_def)

section \<open>Properties of the normalizer\<close>






text \<open>When \<open>normalizeMessage\<close> returns.\<close>

lemma falsy_converts: "\<not> truthy v \<Longrightarrow> converts v"
  by (cases v rule: truthy.cases; cases "the v") auto

lemma js_String_returns: "(\<exists>s. js_String rt v = Inr s) \<longleftrightarrow> converts v"
  by (simp add: js_String_def)

lemma js_String_converts: "converts v \<Longrightarrow> js_String rt v = Inr (js_text rt v)"
  by (simp add: js_String_def)

lemma toISO_returns: "(\<exists>t. toISO rt v = Inr t) \<longleftrightarrow> converts v"
  using falsy_converts [of v] by (cases v) auto

lemma extract_returns: "(\<exists>h. extractHomeFromDevice rt d = Inr h) \<longleftrightarrow> converts d"
  using falsy_converts [of d]
  by (auto simp: extractHomeFromDevice_def js_String_def split: option.splits)

lemma explicit_returns:
  "(\<exists>a. explicit_stream rt raw = Inr a) \<longleftrightarrow> converts (js_get raw ''stream'')"
  using falsy_converts [of "js_get raw ''stream''"]
  by (auto simp: explicit_stream_def js_String_def)

lemma resolve_stream_returns:
  "(\<exists>s. resolve_stream rt topic raw = Inr s) \<longleftrightarrow> converts (js_get raw ''stream'')"
proof (cases "converts (js_get raw ''stream'')")
  case True
  then obtain a where a: "explicit_stream rt raw = Inr a" using explicit_returns by blast
  then show ?thesis using True
    by (auto simp: resolve_stream_def inferStream_def Let_def)
next
  case False
  then have "\<exists>e. explicit_stream rt raw = Inl e"
    using explicit_returns [of rt raw] by (cases "explicit_stream rt raw") auto
  then show ?thesis using False by (auto simp: resolve_stream_def)
qed

lemma truthy_aliases:
  "truthy (js_or (js_or (js_get raw ''homeId'') (js_get raw ''home'')) (js_get raw ''h'')) \<longleftrightarrow>
     truthy (js_get raw ''homeId'') \<or> truthy (js_get raw ''home'') \<or> truthy (js_get raw ''h'')"
  by (simp add: js_or_def)

lemma resolve_homeId_returns:
  "(\<exists>h. resolve_homeId rt raw = Inr h) \<longleftrightarrow>
     truthy (js_get raw ''homeId'') \<or> truthy (js_get raw ''home'') \<or>
     truthy (js_get raw ''h'') \<or> converts (js_get raw ''deviceId'')"
proof (cases "truthy (js_or (js_or (js_get raw ''homeId'') (js_get raw ''home'')) (js_get raw ''h''))")
  case True
  then show ?thesis using truthy_aliases [of raw] by (auto simp: resolve_homeId_def)
next
  case False
  then have "resolve_homeId rt raw = extractHomeFromDevice rt (js_get raw ''deviceId'')"
    by (simp add: resolve_homeId_def)
  then show ?thesis
    using False truthy_aliases [of raw] extract_returns [of rt "js_get raw ''deviceId''"]
    by simp
qed

lemma normalize_returns_iff:
  "(\<exists>m. normalizeMessage rt topic raw = Inr m) \<longleftrightarrow> normalizable raw"
proof -
  have "(\<exists>m. normalizeMessage rt topic raw = Inr m) \<longleftrightarrow>
        raw \<noteq> JNull \<and> (\<exists>t. toISO rt (js_get raw ''ts'') = Inr t) \<and>
        (\<exists>h. resolve_homeId rt raw = Inr h) \<and> (\<exists>s. resolve_stream rt topic raw = Inr s)"
    by (auto simp: normalizeMessage_def split: sum.splits)
  then show ?thesis
    unfolding toISO_returns resolve_homeId_returns resolve_stream_returns normalizable_def
    by simp
qed

lemma normalize_fields:
  assumes "normalizeMessage rt topic raw = Inr m"
  shows "resolve_homeId rt raw = Inr (homeId m)"
    and "deviceId m = js_or (js_get raw ''deviceId'') (js_get raw ''device'')"
    and "\<exists>s. resolve_stream rt topic raw = Inr s \<and>
           stream m = stream_by_presence (canonical_payload (source_of raw)) s"
    and "payload m = canonical_payload (source_of raw)"
    and "toISO rt (js_get raw ''ts'') = Inr (ts m)"
  using assms by (auto simp: normalizeMessage_def split: if_splits sum.splits)










lemma js_includes_iff: "js_includes s sub \<longleftrightarrow> (\<exists>pre post. s = pre @ sub @ post)"
proof (induction s)
  case Nil
  then show ?case by auto
next
  case (Cons c cs)
  have "(\<exists>pre post. c # cs = pre @ sub @ post) \<longleftrightarrow>
        prefix sub (c # cs) \<or> (\<exists>pre post. cs = pre @ sub @ post)"
  proof
    assume "\<exists>pre post. c # cs = pre @ sub @ post"
    then obtain pre post where e: "c # cs = pre @ sub @ post" by blast
    show "prefix sub (c # cs) \<or> (\<exists>pre post. cs = pre @ sub @ post)"
    proof (cases pre)
      case Nil
      with e show ?thesis by (auto simp: prefix_def)
    next
      case (Cons d pre')
      with e have "cs = pre' @ sub @ post" by simp
      then show ?thesis by blast
    qed
  next
    assume "prefix sub (c # cs) \<or> (\<exists>pre post. cs = pre @ sub @ post)"
    then show "\<exists>pre post. c # cs = pre @ sub @ post"
    proof
      assume "prefix sub (c # cs)"
      then obtain post where "c # cs = sub @ post" by (auto simp: prefix_def)
      then have "c # cs = [] @ sub @ post" by simp
      then show ?thesis by blast
    next
      assume "\<exists>pre post. cs = pre @ sub @ post"
      then obtain pre post where "cs = pre @ sub @ post" by blast
      then have "c # cs = (c # pre) @ sub @ post" by simp
      then show ?thesis by blast
    qed
  qed
  with Cons.IH show ?case by simp
qed

lemma resolve_stream_explicit:
  assumes "js_get raw ''stream'' = Some (JStr s)" and "toUpperCase rt s \<noteq> []" and "s \<noteq> []"
  shows "resolve_stream rt topic raw = Inr (Some (JStr (toUpperCase rt s)))"
  using assms by (simp add: resolve_stream_def explicit_stream_def js_String_def)

lemma resolve_stream_absent:
  assumes "\<not> truthy (js_get raw ''stream'')"
  shows "resolve_stream rt topic raw =
     Inr (if js_includes (toLowerCase rt topic) ''/airnode/'' then Some (JStr ''AIR'')
          else if js_includes (toLowerCase rt topic) ''/stovenode/'' then Some (JStr ''STOVE'')
          else None)"
  using assms
  by (simp add: resolve_stream_def explicit_stream_def inferStream_def Let_def js_or_def)

lemma toUpperCase_Nil: "toUpperCase rt [] = []"
  by (simp add: toUpperCase_def is_ascii_def)

text \<open>
  C5, as the code has it, on the bodies on which \<open>normalizeMessage\<close> returns. An explicit
  \<open>raw.stream\<close> text that is AIR or STOVE in upper case wins, as that upper-case text.
  Without a truthy \<open>raw.stream\<close> the lower-cased topic decides when it contains
  \<open>/airnode/\<close> (AIR) or \<open>/stovenode/\<close> (STOVE), the slashes included; otherwise a finite
  stove temperature gives STOVE, else a finite co2, co, pm25 or pm10 gives AIR; otherwise the
  stream is unresolved (\<open>undefined\<close>). Nothing is said here of an explicit stream that is
  neither AIR nor STOVE.
\<close>

theorem C5_stream_priority:
  assumes "normalizable raw"
  shows "\<exists>m. normalizeMessage rt topic raw = Inr m \<and>
     (\<forall>s. js_get raw ''stream'' = Some (JStr s) \<and>
          (toUpperCase rt s = ''AIR'' \<or> toUpperCase rt s = ''STOVE'') \<longrightarrow>
          stream m = Some (JStr (toUpperCase rt s))) \<and>
     (\<not> truthy (js_get raw ''stream'') \<longrightarrow>
        stream m =
          (if js_includes (toLowerCase rt topic) ''/airnode/'' then Some (JStr ''AIR'')
           else if js_includes (toLowerCase rt topic) ''/stovenode/'' then Some (JStr ''STOVE'')
           else if isFiniteNumber (stove_temp_c (payload m)) then Some (JStr ''STOVE'')
           else if isFiniteNumber (co2 (payload m)) \<or> isFiniteNumber (co (payload m)) \<or>
                   isFiniteNumber (pm25 (payload m)) \<or> isFiniteNumber (pm10 (payload m))
                then Some (JStr ''AIR'')
           else None))"
proof -
  from assms obtain m where m: "normalizeMessage rt topic raw = Inr m"
    using normalize_returns_iff by blast
  from normalize_fields(3) [OF m] obtain s0 where
    s0: "resolve_stream rt topic raw = Inr s0"
      "stream m = stream_by_presence (canonical_payload (source_of raw)) s0" by blast
  have p: "payload m = canonical_payload (source_of raw)" by (rule normalize_fields(4) [OF m])
  have e: "js_get raw ''stream'' = Some (JStr s) \<and>
          (toUpperCase rt s = ''AIR'' \<or> toUpperCase rt s = ''STOVE'') \<longrightarrow>
          stream m = Some (JStr (toUpperCase rt s))" for s
  proof
    assume a: "js_get raw ''stream'' = Some (JStr s) \<and>
          (toUpperCase rt s = ''AIR'' \<or> toUpperCase rt s = ''STOVE'')"
    then have "toUpperCase rt s \<noteq> []" by auto
    moreover from this have "s \<noteq> []" using toUpperCase_Nil by auto
    ultimately have "resolve_stream rt topic raw = Inr (Some (JStr (toUpperCase rt s)))"
      using resolve_stream_explicit a by blast
    with s0 a show "stream m = Some (JStr (toUpperCase rt s))"
      by (auto simp: stream_by_presence_def)
  qed
  have n: "\<not> truthy (js_get raw ''stream'') \<longrightarrow>
        stream m =
          (if js_includes (toLowerCase rt topic) ''/airnode/'' then Some (JStr ''AIR'')
           else if js_includes (toLowerCase rt topic) ''/stovenode/'' then Some (JStr ''STOVE'')
           else if isFiniteNumber (stove_temp_c (payload m)) then Some (JStr ''STOVE'')
           else if isFiniteNumber (co2 (payload m)) \<or> isFiniteNumber (co (payload m)) \<or>
                   isFiniteNumber (pm25 (payload m)) \<or> isFiniteNumber (pm10 (payload m))
                then Some (JStr ''AIR'')
           else None)"
  proof
    assume a: "\<not> truthy (js_get raw ''stream'')"
    from resolve_stream_absent [OF a, of rt topic] s0 show "stream m =
          (if js_includes (toLowerCase rt topic) ''/airnode/'' then Some (JStr ''AIR'')
           else if js_includes (toLowerCase rt topic) ''/stovenode/'' then Some (JStr ''STOVE'')
           else if isFiniteNumber (stove_temp_c (payload m)) then Some (JStr ''STOVE'')
           else if isFiniteNumber (co2 (payload m)) \<or> isFiniteNumber (co (payload m)) \<or>
                   isFiniteNumber (pm25 (payload m)) \<or> isFiniteNumber (pm10 (payload m))
                then Some (JStr ''AIR'')
           else None)"
      unfolding p by (auto simp: stream_by_presence_def)
  qed
  from m e n show ?thesis by blast
qed

text \<open>C5 at two messages: the topic hint (case-insensitive) goes before the presence of a
  stove temperature, and an explicit stream goes before the topic hint.\<close>

theorem C5_stream_priority_witness:
  "map_sum id stream (normalizeMessage sample_runtime ''shega/AirNode/data''
       (JObj [(''deviceId'', JStr ''AIR_HOME_01''), (''stove_temp'', JNum (Fin 90))])) =
     Inr (Some (JStr ''AIR''))
   \<and> map_sum id stream (normalizeMessage sample_runtime ''shega/airnode/data''
       (JObj [(''deviceId'', JStr ''AIR_HOME_01''), (''stream'', JStr ''stove'')])) =
     Inr (Some (JStr ''STOVE''))"
  using C5_stream_priority [of "JObj [(''deviceId'', JStr ''AIR_HOME_01''), (''stove_temp'', JNum (Fin 90))]"
      sample_runtime "''shega/AirNode/data''"]
    C5_stream_priority [of "JObj [(''deviceId'', JStr ''AIR_HOME_01''), (''stream'', JStr ''stove'')]"
      sample_runtime "''shega/airnode/data''"]
  by (auto simp: normalizable_def toLowerCase_def toUpperCase_def is_ascii_def
      lower_char_def upper_char_def lower_letters_def upper_letters_def)

text \<open>
  C5 as the specification words it fails twice. The topic \<open>shega/airnode1/data\<close> contains
  \<open>airnode\<close>, and a message on it with no stream field and no measurements is left without
  a stream. And a message whose \<open>ts\<close> is an object with a \<open>toString\<close> key gets no record,
  hence no stream, whatever the topic.
\<close>

theorem C5_topic_hint_counterexample:
  "js_includes ''shega/airnode1/data'' ''airnode''
   \<and> map_sum id stream (normalizeMessage sample_runtime ''shega/airnode1/data''
        (JObj [(''homeId'', JStr ''HOME_01''), (''deviceId'', JStr ''AIR_HOME_01'')])) = Inr None
   \<and> normalizeMessage sample_runtime ''shega/airnode/data''
        (JObj [(''homeId'', JStr ''HOME_01''), (''deviceId'', JStr ''AIR_HOME_01''),
               (''ts'', JObj [(''toString'', JNum (Fin 0))])]) = Inl TypeError"
  by (simp add: normalizeMessage_def stream_by_presence_def js_or_def
      resolve_homeId_def resolve_stream_def
      explicit_stream_def inferStream_def canonical_payload_def source_of_def
      toLowerCase_def is_ascii_def lower_char_def lower_letters_def upper_letters_def
      sample_runtime_def)

section \<open>Properties of the sockets module and the router\<close>

lemma process_all_append:
  "process_all rt ext st (xs @ ys) = process_all rt ext st xs @ process_all rt ext st ys"
  by (induction xs) auto

text \<open>
  C9. A message whose bytes \<open>JSON.parse\<close> rejects, on any topic, leaves one console line
  and nothing else: no call of the device registry, none of the telemetry store, no push to
  the sockets module, no publish; the handler returns without an error. In a sequence of
  messages the others are handled as if it had not been there, its console line apart.
\<close>

theorem C9_malformed_dropped:
  assumes "json_parse rt buf = None"
  shows "on_message rt ext st topic buf = ([Console NonJson], None) \<and>
     process_all rt ext st (earlier @ (topic, buf) # later) =
       process_all rt ext st earlier @ [Console NonJson] @ process_all rt ext st later"
  using assms by (simp add: on_message_def process_all_append)

text \<open>C9 at the body \<open>{oops\<close>, followed by a well-formed message that is handled as
  usual.\<close>

theorem C9_malformed_dropped_witness:
  "on_message sample_runtime sample_store \<lparr> client = True, io = Some IoServer \<rparr>
      ''shega/airnode/data'' ''{oops'' = ([Console NonJson], None)
   \<and> process_all sample_runtime sample_store \<lparr> client = True, io = Some IoServer \<rparr>
        [(''shega/airnode/data'', ''{oops''), (''shega/alerts'', ''true'')] =
      [Console NonJson, Console Triage, FanoutCall ''alert'' (Plain (Some (JBool True))),
       IoEmit ''home:undefined'' ''alert'' (Plain (Some (JBool True))),
       IoEmit ''admin'' ''alert'' (Plain (Some (JBool True)))]"
  using C9_malformed_dropped [of sample_runtime "''{oops''" sample_store
      "\<lparr> client = True, io = Some IoServer \<rparr>" "''shega/airnode/data''" "[]"
      "[(''shega/alerts'', ''true'')]"]
  by (simp add: sample_runtime_def on_message_def on_parsed_def normalizeMessage_def
      resolve_homeId_def resolve_stream_def explicit_stream_def inferStream_def
      extractHomeFromDevice_def js_or_def stream_by_presence_def canonical_payload_def
      source_of_def strict_bool_def triage_line_def js_String_def
      toLowerCase_def is_ascii_def lower_char_def lower_letters_def upper_letters_def
      emitAlert_def home_room_def)

lemma triage_line_cases:
  "triage_line rt m = Inr line \<Longrightarrow> line = [Console Triage]"
  by (auto simp: triage_line_def split: sum.splits)

lemma triage_line_returns:
  "(\<exists>line. triage_line rt m = Inr line) \<longleftrightarrow>
     converts (homeId m) \<and> converts (deviceId m) \<and> converts (stream m)"
  by (auto simp: triage_line_def js_String_def split: sum.splits)

lemma emit_none:
  "io st = None \<Longrightarrow> emitTelemetry rt st x = Inr []"
  "io st = None \<Longrightarrow> emitAlert rt st x = Inr []"
  "io st = None \<Longrightarrow> emitCommand rt st x = Inr []"
  by (simp_all add: emitTelemetry_def emitAlert_def emitCommand_def)

lemma swallow_emit_filter:
  "filter (\<lambda>e. \<not> is_io_emit e) (swallow (emitTelemetry rt st x)) = []"
  "filter (\<lambda>e. \<not> is_io_emit e) (swallow (emitAlert rt st x)) = []"
  by (auto simp: emitTelemetry_def emitAlert_def split: option.splits sum.splits)

lemma maybePublishAlerts_without_io:
  "io st = None \<Longrightarrow>
   filter (\<lambda>e. \<not> is_io_emit e) (maybePublishAlerts rt (st\<lparr> io := Some s \<rparr>) m) =
     maybePublishAlerts rt st m"
  by (simp add: maybePublishAlerts_def swallow_emit_filter emit_none)

lemma push_telemetry_without_io:
  "io st = None \<Longrightarrow>
   filter (\<lambda>e. \<not> is_io_emit e) (push_telemetry rt (st\<lparr> io := Some s \<rparr>) doc) =
     push_telemetry rt st doc"
  by (simp add: push_telemetry_def swallow_emit_filter emit_none split: sum.splits)

lemma persist_and_alert_without_io:
  "io st = None \<Longrightarrow>
   filter (\<lambda>e. \<not> is_io_emit e) (persist_and_alert rt ext (st\<lparr> io := Some s \<rparr>) m) =
     persist_and_alert rt ext st m"
  by (simp add: persist_and_alert_def maybePublishAlerts_without_io push_telemetry_without_io
      split: sum.splits)

lemma on_parsed_without_io:
  assumes "io st = None"
  shows "on_parsed rt ext st topic raw =
     (filter (\<lambda>e. \<not> is_io_emit e) (fst (on_parsed rt ext (st\<lparr> io := Some s \<rparr>) topic raw)),
      snd (on_parsed rt ext (st\<lparr> io := Some s \<rparr>) topic raw))"
proof (cases "normalizeMessage rt topic raw")
  case (Inl e)
  then show ?thesis by (simp add: on_parsed_def)
next
  case (Inr m)
  show ?thesis
  proof (cases "triage_line rt m")
    case (Inl e)
    with Inr show ?thesis by (simp add: on_parsed_def)
  next
    case line: (Inr line)
    then have l: "line = [Console Triage]" by (rule triage_line_cases)
    show ?thesis
      using assms Inr line
      by (simp add: on_parsed_def l persist_and_alert_without_io swallow_emit_filter emit_none)
  qed
qed

text \<open>
  C10. While the socket server is not initialized, \<open>emitTelemetry\<close>, \<open>emitAlert\<close> and
  \<open>emitCommand\<close> return normally and emit nothing, whatever their argument (\<open>null\<close> and
  \<open>undefined\<close> included), and \<open>getIO\<close> throws. The message handler then does exactly
  what it does with a server, the emissions to rooms left out: the same calls of the
  registry and the store, the same publishes, the same result.
\<close>

theorem C10_fanout_unavailable:
  assumes "io st = None"
  shows "emitTelemetry rt st x = Inr [] \<and> emitAlert rt st x = Inr [] \<and>
     emitCommand rt st x = Inr [] \<and>
     getIO st = Inl (Err ''Socket.IO not initialized'' None) \<and>
     on_message rt ext st topic buf =
       (filter (\<lambda>e. \<not> is_io_emit e)
          (fst (on_message rt ext (st\<lparr> io := Some IoServer \<rparr>) topic buf)),
        snd (on_message rt ext (st\<lparr> io := Some IoServer \<rparr>) topic buf))"
proof -
  have "on_message rt ext st topic buf =
       (filter (\<lambda>e. \<not> is_io_emit e)
          (fst (on_message rt ext (st\<lparr> io := Some IoServer \<rparr>) topic buf)),
        snd (on_message rt ext (st\<lparr> io := Some IoServer \<rparr>) topic buf))"
  proof (cases "json_parse rt buf")
    case None
    then show ?thesis by (simp add: on_message_def)
  next
    case (Some raw)
    then show ?thesis
      using on_parsed_without_io [OF assms, of rt ext topic raw IoServer]
      by (simp add: on_message_def)
  qed
  with assms show ?thesis by (simp add: emit_none getIO_def)
qed

text \<open>C10 at the argument \<open>undefined\<close>: a no-op without a server, a TypeError with
  one.\<close>

theorem C10_fanout_unavailable_witness:
  "emitAlert sample_runtime \<lparr> client = True, io = None \<rparr> (Plain None) = Inr []
   \<and> emitAlert sample_runtime \<lparr> client = True, io = Some IoServer \<rparr> (Plain None) = Inl TypeError
   \<and> getIO \<lparr> client = True, io = None \<rparr> = Inl (Err ''Socket.IO not initialized'' None)
   \<and> getIO \<lparr> client = True, io = Some IoServer \<rparr> = Inr IoServer"
  using C10_fanout_unavailable [of "\<lparr> client = True, io = None \<rparr>" sample_runtime "Plain None"]
  by (simp add: emitAlert_def home_room_def getIO_def)

lemma push_telemetry_no_alert: "filter is_alert_out (push_telemetry rt st doc) = []"
  by (auto simp: push_telemetry_def emitTelemetry_def is_alert_out_def
      split: sum.splits option.splits)

lemma push_telemetry_kinds:
  "filter is_bus_publish (push_telemetry rt st doc) = []"
  "filter is_alert_push (push_telemetry rt st doc) = []"
  "filter is_alert_emit (push_telemetry rt st doc) = []"
  by (auto simp: push_telemetry_def emitTelemetry_def split: sum.splits option.splits)

lemma emitAlert_kinds:
  "filter is_bus_publish (swallow (emitAlert rt st x)) = []"
  "filter is_alert_push (swallow (emitAlert rt st x)) = []"
  by (auto simp: emitAlert_def split: sum.splits option.splits)

lemma maybePublishAlerts_kinds:
  "client st \<Longrightarrow> filter is_bus_publish (maybePublishAlerts rt st m) =
     (if alerts_of (payload m) \<noteq> []
      then [BusPublish ''shega/alerts'' (AlertBody (alert_payload rt m))] else [])"
  "client st \<Longrightarrow> filter is_alert_push (maybePublishAlerts rt st m) =
     (if alerts_of (payload m) \<noteq> []
      then [FanoutCall ''alert'' (Derived (alert_payload rt m))] else [])"
  by (simp_all add: maybePublishAlerts_def emitAlert_kinds)

lemma maybePublishAlerts_emits:
  "client st \<Longrightarrow> converts (homeId m) \<Longrightarrow>
   filter is_alert_emit (maybePublishAlerts rt st m) =
     (if alerts_of (payload m) \<noteq> [] \<and> io st \<noteq> None
      then [IoEmit (''home:'' @ js_text rt (homeId m)) ''alert'' (Derived (alert_payload rt m)),
            IoEmit ''admin'' ''alert'' (Derived (alert_payload rt m))]
      else [])"
  by (auto simp: maybePublishAlerts_def emitAlert_def home_room_def js_String_def
      alert_payload_def split: option.splits)

lemma maybePublishAlerts_none:
  "alerts_of (payload m) = [] \<Longrightarrow> maybePublishAlerts rt st m = []"
  by (simp add: maybePublishAlerts_def)

lemma maybePublishAlerts_bodies:
  "BusPublish t b \<in> set (maybePublishAlerts rt st m) \<Longrightarrow>
     t = ''shega/alerts'' \<and> b = AlertBody (alert_payload rt m) \<and> alerts_of (payload m) \<noteq> []"
  by (auto simp: maybePublishAlerts_def emitAlert_def split: if_splits option.splits sum.splits)

lemma push_telemetry_no_publish: "BusPublish t b \<notin> set (push_telemetry rt st doc)"
  by (auto simp: push_telemetry_def emitTelemetry_def split: sum.splits option.splits)

lemma persist_and_alert_bodies:
  "BusPublish t b \<in> set (persist_and_alert rt ext st m) \<Longrightarrow>
     t = ''shega/alerts'' \<and> b = AlertBody (alert_payload rt m) \<and> alerts_of (payload m) \<noteq> []"
  by (auto simp: persist_and_alert_def push_telemetry_no_publish
      dest: maybePublishAlerts_bodies split: sum.splits)

lemma on_message_bodies:
  assumes "BusPublish t b \<in> set (fst (on_message rt ext st topic buf))"
  shows "\<exists>a. b = AlertBody a \<and> ar_alerts a \<noteq> [] \<and> t = ''shega/alerts''"
proof -
  from assms obtain m where
    "BusPublish t b \<in> set (persist_and_alert rt ext st m)"
    by (auto simp: on_message_def on_parsed_def emitAlert_def
        dest!: triage_line_cases split: option.splits sum.splits if_splits)
  from persist_and_alert_bodies [OF this] show ?thesis
    by (simp add: alert_payload_def)
qed

lemma resolve_stream_shape:
  "resolve_stream rt topic raw = Inr s \<Longrightarrow> s = None \<or> (\<exists>t. s = Some (JStr t))"
  by (auto simp: resolve_stream_def explicit_stream_def inferStream_def Let_def js_or_def
      split: sum.splits if_splits)

lemma stream_converts:
  assumes "normalizeMessage rt topic raw = Inr m"
  shows "converts (stream m)"
proof -
  from normalize_fields(3) [OF assms] obtain s where
    s: "resolve_stream rt topic raw = Inr s"
      "stream m = stream_by_presence (canonical_payload (source_of raw)) s" by blast
  from resolve_stream_shape [OF s(1)] s(2) show ?thesis
    by (auto simp: stream_by_presence_def)
qed

lemma triage_logged:
  assumes "normalizeMessage rt topic raw = Inr m"
    and "converts (homeId m)" "converts (deviceId m)"
  shows "triage_line rt m = Inr [Console Triage]"
  using assms(2,3) stream_converts [OF assms(1)]
  by (simp add: triage_line_def js_String_def)

lemma processed_events:
  assumes "topic \<noteq> ''shega/alerts''"
    and "normalizeMessage rt topic raw = Inr m"
    and "converts (homeId m)" "converts (deviceId m)"
    and "truthy (homeId m)" "truthy (deviceId m)" "truthy (stream m)"
    and "upsertFromIngest ext (homeId m) (deviceId m) (stream m) = Inr device"
    and "saveTelemetry ext (telemetry_doc m device) = Inr doc"
  shows "fst (on_parsed rt ext st topic raw) =
     [Console Triage, UpsertCall (homeId m) (deviceId m) (stream m),
      SaveCall (telemetry_doc m device), Console Saved]
     @ push_telemetry rt st doc @ maybePublishAlerts rt st m"
  using assms triage_logged [OF assms(2-4)] by (simp add: on_parsed_def persist_and_alert_def)

lemma on_message_parsed:
  "json_parse rt buf = Some raw \<Longrightarrow> on_message rt ext st topic buf = on_parsed rt ext st topic raw"
  by (simp add: on_message_def)

text \<open>
  C7. A processed telemetry message is one the handler takes as far as the store: it is
  normalized, its triage line is logged (the home and the device convert to text), its
  identifiers and stream are truthy, and the upsert and the append succeed; the handler runs
  on a started client. For such a message the record is handed to the store, and the alert
  record is published on \<open>shega/alerts\<close> and handed to the sockets module exactly when
  \<open>alerts_of\<close> yields at least one item, once each, and it carries those items; an
  initialized socket server then emits it to the home's room and to the administrators'
  room. With no item nothing about alerts leaves the router. No run of the handler, on any
  input, ever publishes a record with an empty item list.
\<close>

theorem C7_alert_iff_items:
  assumes "client st"
    and "topic \<noteq> ''shega/alerts''"
    and "normalizeMessage rt topic raw = Inr m"
    and "converts (homeId m)" "converts (deviceId m)"
    and "truthy (homeId m)" "truthy (deviceId m)" "truthy (stream m)"
    and "upsertFromIngest ext (homeId m) (deviceId m) (stream m) = Inr device"
    and "saveTelemetry ext (telemetry_doc m device) = Inr doc"
  shows "SaveCall (telemetry_doc m device) \<in> set (fst (on_parsed rt ext st topic raw))
     \<and> filter is_bus_publish (fst (on_parsed rt ext st topic raw)) =
       (if alerts_of (payload m) \<noteq> []
        then [BusPublish ''shega/alerts'' (AlertBody (alert_payload rt m))] else [])
     \<and> filter is_alert_push (fst (on_parsed rt ext st topic raw)) =
       (if alerts_of (payload m) \<noteq> []
        then [FanoutCall ''alert'' (Derived (alert_payload rt m))] else [])
     \<and> filter is_alert_emit (fst (on_parsed rt ext st topic raw)) =
       (if alerts_of (payload m) \<noteq> [] \<and> io st \<noteq> None
        then [IoEmit (''home:'' @ js_text rt (homeId m)) ''alert''
                (Derived (alert_payload rt m)),
              IoEmit ''admin'' ''alert'' (Derived (alert_payload rt m))]
        else [])
     \<and> (if alerts_of (payload m) \<noteq> []
        then ar_alerts (alert_payload rt m) = alerts_of (payload m)
        else filter is_alert_out (fst (on_parsed rt ext st topic raw)) = [])
     \<and> (\<forall>rt' ext' st' topic' buf' t b.
          BusPublish t b \<in> set (fst (on_message rt' ext' st' topic' buf')) \<longrightarrow>
          (\<exists>a. b = AlertBody a \<and> ar_alerts a \<noteq> [] \<and> t = ''shega/alerts''))"
proof -
  have ev: "fst (on_parsed rt ext st topic raw) =
     [Console Triage, UpsertCall (homeId m) (deviceId m) (stream m),
      SaveCall (telemetry_doc m device), Console Saved]
     @ push_telemetry rt st doc @ maybePublishAlerts rt st m"
    by (rule processed_events [OF assms(2-10)])
  have s: "SaveCall (telemetry_doc m device) \<in> set (fst (on_parsed rt ext st topic raw))"
    unfolding ev by simp
  have a: "filter is_bus_publish (fst (on_parsed rt ext st topic raw)) =
       (if alerts_of (payload m) \<noteq> []
        then [BusPublish ''shega/alerts'' (AlertBody (alert_payload rt m))] else [])"
    unfolding ev using assms(1) by (simp add: push_telemetry_kinds maybePublishAlerts_kinds)
  have b: "filter is_alert_push (fst (on_parsed rt ext st topic raw)) =
       (if alerts_of (payload m) \<noteq> []
        then [FanoutCall ''alert'' (Derived (alert_payload rt m))] else [])"
    unfolding ev using assms(1) by (simp add: push_telemetry_kinds maybePublishAlerts_kinds)
  have e: "filter is_alert_emit (fst (on_parsed rt ext st topic raw)) =
       (if alerts_of (payload m) \<noteq> [] \<and> io st \<noteq> None
        then [IoEmit (''home:'' @ js_text rt (homeId m)) ''alert''
                (Derived (alert_payload rt m)),
              IoEmit ''admin'' ''alert'' (Derived (alert_payload rt m))]
        else [])"
    unfolding ev using assms(1,4)
    by (simp add: push_telemetry_kinds maybePublishAlerts_emits)
  have c: "alerts_of (payload m) = [] \<Longrightarrow>
      filter is_alert_out (fst (on_parsed rt ext st topic raw)) = []"
    unfolding ev by (simp add: push_telemetry_no_alert maybePublishAlerts_none is_alert_out_def)
  have d: "ar_alerts (alert_payload rt m) = alerts_of (payload m)"
    by (simp add: alert_payload_def)
  show ?thesis unfolding a b e using s c d on_message_bodies by (simp; blast)
qed

lemma sample_air_normalized:
  "normalizeMessage sample_runtime ''shega/airnode/data''
     (JObj [(''ts'', JStr ''2024-01-01T00:00:00Z''), (''deviceId'', JStr ''AIR_HOME_01''),
            (''co2'', JNum (Fin 1700)), (''pm25'', JNum (Fin 40))]) =
   Inr \<lparr> ts = ''2024-01-01T00:00:00.000Z'', homeId = Some (JStr ''HOME_01''),
         deviceId = Some (JStr ''AIR_HOME_01''), stream = Some (JStr ''AIR''),
         payload = \<lparr> co2 = Some (JNum (Fin 1700)), co = None, pm25 = Some (JNum (Fin 40)),
                     pm10 = None, temperature_c = None, humidity_pct = None,
                     stove_temp_c = None, fanOn = None, buzzerOn = None, profile = None,
                     windowOpen = None \<rparr> \<rparr>"
  by (simp add: normalizeMessage_def sample_runtime_def js_or_def resolve_homeId_def
      resolve_stream_def js_String_def
      extractHomeFromDevice_def is_digit_def explicit_stream_def inferStream_def
      stream_by_presence_def canonical_payload_def source_of_def strict_bool_def
      toLowerCase_def is_ascii_def lower_char_def lower_letters_def upper_letters_def)

text \<open>C7 at the message \<open>co2 = 1700, pm25 = 40\<close> of device \<open>AIR_HOME_01\<close> on the air
  topic: one record with the two items, CO2 first.\<close>

theorem C7_alert_iff_items_witness:
  "filter is_bus_publish (fst (on_parsed sample_runtime sample_store
       \<lparr> client = True, io = Some IoServer \<rparr> ''shega/airnode/data''
       (JObj [(''ts'', JStr ''2024-01-01T00:00:00Z''), (''deviceId'', JStr ''AIR_HOME_01''),
              (''co2'', JNum (Fin 1700)), (''pm25'', JNum (Fin 40))]))) =
     [BusPublish ''shega/alerts''
        (AlertBody \<lparr> ar_homeId = Some (JStr ''HOME_01''),
                     ar_deviceId = Some (JStr ''AIR_HOME_01''),
                     ar_stream = Some (JStr ''AIR''), ar_ts = ''2024-01-01T00:00:00.000Z'',
                     ar_alerts =
                       [\<lparr> item_type = CO2, item_level = danger, item_value = 1700,
                           item_limit = 1000 \<rparr>,
                        \<lparr> item_type = PM2_5, item_level = warn, item_value = 40,
                           item_limit = 35 \<rparr>] \<rparr>)]"
  using C7_alert_iff_items [OF _ _ sample_air_normalized, of "\<lparr> client = True, io = Some IoServer \<rparr>"
      sample_store "Some (JObj [(''_id'', JStr ''dev-1'')])" "Some (JObj [(''_id'', JStr ''doc-1'')])"]
  by (simp add: sample_store_def sample_runtime_def alert_payload_def alerts_of_def
      co2_alerts_def co_alerts_def pm25_alerts_def stove_alerts_def)

lemma alert_event_position:
  assumes "xs @ ys = pre @ e # post" and "is_alert_out e" and "filter is_alert_out xs = []"
  shows "set xs \<subseteq> set pre"
proof -
  from assms(1) consider us where "xs = pre @ us" "us @ ys = e # post"
    | us where "xs @ us = pre" "ys = us @ e # post"
    by (auto simp: append_eq_append_conv2)
  then show ?thesis
  proof cases
    case 1
    show ?thesis
    proof (cases us)
      case Nil
      with 1 show ?thesis by simp
    next
      case (Cons u us')
      with 1 have "e \<in> set xs" by simp
      with assms(2) have "filter is_alert_out xs \<noteq> []"
        by (auto simp: filter_empty_conv)
      with assms(3) show ?thesis by simp
    qed
  next
    case 2
    then show ?thesis by auto
  qed
qed

lemma unprocessed_no_alert:
  assumes "topic \<noteq> ''shega/alerts''"
    and "\<not> (\<exists>m device doc. normalizeMessage rt topic raw = Inr m \<and>
            upsertFromIngest ext (homeId m) (deviceId m) (stream m) = Inr device \<and>
            saveTelemetry ext (telemetry_doc m device) = Inr doc)"
  shows "filter is_alert_out (fst (on_parsed rt ext st topic raw)) = []"
  using assms
  by (auto simp: on_parsed_def persist_and_alert_def is_alert_out_def
      dest!: triage_line_cases split: sum.splits)

lemma processed_shape:
  assumes "topic \<noteq> ''shega/alerts''"
    and "normalizeMessage rt topic raw = Inr m"
    and "upsertFromIngest ext (homeId m) (deviceId m) (stream m) = Inr device"
    and "saveTelemetry ext (telemetry_doc m device) = Inr doc"
  shows "filter is_alert_out (fst (on_parsed rt ext st topic raw)) = [] \<or>
     fst (on_parsed rt ext st topic raw) =
       ([Console Triage, UpsertCall (homeId m) (deviceId m) (stream m),
         SaveCall (telemetry_doc m device), Console Saved] @ push_telemetry rt st doc)
       @ maybePublishAlerts rt st m"
  using assms
  by (auto simp: on_parsed_def persist_and_alert_def is_alert_out_def
      dest!: triage_line_cases split: sum.splits)

text \<open>
  C4. On a topic other than the alerts channel, every alert that leaves the router (a
  publish, a call of \<open>sockets.emitAlert\<close>, an alert emission) comes later in the run than
  the calls of \<open>upsertFromIngest\<close> and \<open>saveTelemetry\<close> for that message, and both calls
  have returned normally. When the upsert or the append throws, no alert leaves the router.
\<close>

theorem C4_alert_after_persistence:
  assumes "topic \<noteq> ''shega/alerts''"
  shows "(\<forall>pre e post.
           fst (on_parsed rt ext st topic raw) = pre @ e # post \<and> is_alert_out e \<longrightarrow>
           (\<exists>m device doc.
              normalizeMessage rt topic raw = Inr m \<and>
              upsertFromIngest ext (homeId m) (deviceId m) (stream m) = Inr device \<and>
              saveTelemetry ext (telemetry_doc m device) = Inr doc \<and>
              UpsertCall (homeId m) (deviceId m) (stream m) \<in> set pre \<and>
              SaveCall (telemetry_doc m device) \<in> set pre))
     \<and> (\<forall>m. normalizeMessage rt topic raw = Inr m \<and>
            (isl (upsertFromIngest ext (homeId m) (deviceId m) (stream m)) \<or>
             (\<exists>device. upsertFromIngest ext (homeId m) (deviceId m) (stream m) = Inr device \<and>
                isl (saveTelemetry ext (telemetry_doc m device)))) \<longrightarrow>
            filter is_alert_out (fst (on_parsed rt ext st topic raw)) = [])"
proof (intro conjI allI impI)
  fix pre e post
  assume a: "fst (on_parsed rt ext st topic raw) = pre @ e # post \<and> is_alert_out e"
  then have "e \<in> set (fst (on_parsed rt ext st topic raw))" by simp
  with a have ne: "filter is_alert_out (fst (on_parsed rt ext st topic raw)) \<noteq> []"
    by (auto simp: filter_empty_conv)
  with unprocessed_no_alert [OF assms, of rt raw ext st]
  obtain m device doc where ok: "normalizeMessage rt topic raw = Inr m"
    "upsertFromIngest ext (homeId m) (deviceId m) (stream m) = Inr device"
    "saveTelemetry ext (telemetry_doc m device) = Inr doc" by blast
  from processed_shape [OF assms ok, of st] ne
  have sh: "([Console Triage, UpsertCall (homeId m) (deviceId m) (stream m),
         SaveCall (telemetry_doc m device), Console Saved] @ push_telemetry rt st doc)
       @ maybePublishAlerts rt st m = pre @ e # post"
    using a by simp
  have "filter is_alert_out ([Console Triage, UpsertCall (homeId m) (deviceId m) (stream m),
         SaveCall (telemetry_doc m device), Console Saved] @ push_telemetry rt st doc) = []"
    by (simp add: push_telemetry_no_alert is_alert_out_def)
  from alert_event_position [OF sh _ this] a
  have "UpsertCall (homeId m) (deviceId m) (stream m) \<in> set pre"
    "SaveCall (telemetry_doc m device) \<in> set pre" by auto
  with ok show "\<exists>m device doc.
              normalizeMessage rt topic raw = Inr m \<and>
              upsertFromIngest ext (homeId m) (deviceId m) (stream m) = Inr device \<and>
              saveTelemetry ext (telemetry_doc m device) = Inr doc \<and>
              UpsertCall (homeId m) (deviceId m) (stream m) \<in> set pre \<and>
              SaveCall (telemetry_doc m device) \<in> set pre" by blast
next
  fix m
  assume f: "normalizeMessage rt topic raw = Inr m \<and>
            (isl (upsertFromIngest ext (homeId m) (deviceId m) (stream m)) \<or>
             (\<exists>device. upsertFromIngest ext (homeId m) (deviceId m) (stream m) = Inr device \<and>
                isl (saveTelemetry ext (telemetry_doc m device))))"
  show "filter is_alert_out (fst (on_parsed rt ext st topic raw)) = []"
  proof (rule unprocessed_no_alert [OF assms])
    show "\<not> (\<exists>m device doc. normalizeMessage rt topic raw = Inr m \<and>
            upsertFromIngest ext (homeId m) (deviceId m) (stream m) = Inr device \<and>
            saveTelemetry ext (telemetry_doc m device) = Inr doc)"
      using f by (auto simp: isl_def)
  qed
qed

text \<open>C4 at a message that breaches two thresholds, with a store whose append throws
  and with a registry whose upsert throws.\<close>

theorem C4_alert_after_persistence_witness:
  "filter is_alert_out (fst (on_parsed sample_runtime failing_store
       \<lparr> client = True, io = Some IoServer \<rparr> ''shega/airnode/data''
       (JObj [(''ts'', JStr ''2024-01-01T00:00:00Z''), (''deviceId'', JStr ''AIR_HOME_01''),
              (''co2'', JNum (Fin 1700)), (''pm25'', JNum (Fin 40))]))) = []
   \<and> filter is_alert_out (fst (on_parsed sample_runtime failing_registry
       \<lparr> client = True, io = Some IoServer \<rparr> ''shega/airnode/data''
       (JObj [(''ts'', JStr ''2024-01-01T00:00:00Z''), (''deviceId'', JStr ''AIR_HOME_01''),
              (''co2'', JNum (Fin 1700)), (''pm25'', JNum (Fin 40))]))) = []"
  using C4_alert_after_persistence [of "''shega/airnode/data''" sample_runtime failing_store
      "\<lparr> client = True, io = Some IoServer \<rparr>"
      "JObj [(''ts'', JStr ''2024-01-01T00:00:00Z''), (''deviceId'', JStr ''AIR_HOME_01''),
              (''co2'', JNum (Fin 1700)), (''pm25'', JNum (Fin 40))]"]
    C4_alert_after_persistence [of "''shega/airnode/data''" sample_runtime failing_registry
      "\<lparr> client = True, io = Some IoServer \<rparr>"
      "JObj [(''ts'', JStr ''2024-01-01T00:00:00Z''), (''deviceId'', JStr ''AIR_HOME_01''),
              (''co2'', JNum (Fin 1700)), (''pm25'', JNum (Fin 40))]"]
  by (simp add: sample_air_normalized failing_store_def failing_registry_def)

lemma push_telemetry_no_save: "SaveCall t \<notin> set (push_telemetry rt st doc)"
  "UpsertCall h d s \<notin> set (push_telemetry rt st doc)"
  by (auto simp: push_telemetry_def emitTelemetry_def split: sum.splits option.splits)

lemma maybePublishAlerts_no_save: "SaveCall t \<notin> set (maybePublishAlerts rt st m)"
  "UpsertCall h d s \<notin> set (maybePublishAlerts rt st m)"
  by (auto simp: maybePublishAlerts_def emitAlert_def split: sum.splits option.splits)

text \<open>The guards before the collaborators: the registry and the store are called only
  for a telemetry message whose \<open>homeId\<close>, \<open>deviceId\<close> and \<open>stream\<close> are truthy.\<close>

lemma save_call_guarded:
  assumes "SaveCall t \<in> set (fst (on_parsed rt ext st topic raw)) \<or>
           UpsertCall h d s \<in> set (fst (on_parsed rt ext st topic raw))"
  shows "\<exists>m. normalizeMessage rt topic raw = Inr m \<and> topic \<noteq> ''shega/alerts'' \<and>
           truthy (homeId m) \<and> truthy (deviceId m) \<and> truthy (stream m)"
  using assms
  by (auto simp: on_parsed_def persist_and_alert_def emitAlert_def push_telemetry_no_save
      maybePublishAlerts_no_save dest!: triage_line_cases
      split: sum.splits if_splits option.splits)

text \<open>
  C2 asks that every persisted record has stream AIR or STOVE, as the comment above
  \<open>normalizeMessage\<close> documents its result. The handler does not check it: a message
  with the explicit stream \<open>banana\<close> passes the guards, and the registry and the store are
  called with the stream \<open>BANANA\<close>.
\<close>

theorem C2_unchecked_stream_persisted:
  "fst (on_parsed sample_runtime sample_store \<lparr> client = True, io = None \<rparr>
         ''shega/kitchen/data''
         (JObj [(''homeId'', JStr ''HOME_01''), (''deviceId'', JStr ''AIR_HOME_01''),
                (''stream'', JStr ''banana'')])) =
     [Console Triage,
      UpsertCall (Some (JStr ''HOME_01'')) (Some (JStr ''AIR_HOME_01'')) (Some (JStr ''BANANA'')),
      SaveCall \<lparr> t_homeId = Some (JStr ''HOME_01''), t_deviceId = Some (JStr ''AIR_HOME_01''),
                 t_stream = Some (JStr ''BANANA''),
                 t_payload =
                   \<lparr> co2 = None, co = None, pm25 = None, pm10 = None,
                     temperature_c = None, humidity_pct = None, stove_temp_c = None,
                     fanOn = None, buzzerOn = None, profile = None, windowOpen = None \<rparr>,
                 t_ts = ''2024-01-01T00:00:00.000Z'',
                 t_deviceRef = Some (JStr ''dev-1'') \<rparr>,
      Console Saved,
      FanoutCall ''telemetry'' (Plain (Some (JObj [(''_id'', JStr ''doc-1'')])))]"
  by (simp add: on_parsed_def normalizeMessage_def sample_runtime_def sample_store_def
      js_or_def resolve_homeId_def resolve_stream_def explicit_stream_def js_String_def
      triage_line_def stream_by_presence_def
      persist_and_alert_def telemetry_doc_def push_telemetry_def emitTelemetry_def
      maybePublishAlerts_def alerts_of_def co2_alerts_def co_alerts_def pm25_alerts_def
      stove_alerts_def canonical_payload_def source_of_def strict_bool_def
      toUpperCase_def is_ascii_def upper_char_def lower_letters_def upper_letters_def)

text \<open>C2 at that message: the record handed to the store has the stream \<open>BANANA\<close>.\<close>

theorem C2_unchecked_stream_persisted_witness:
  "SaveCall \<lparr> t_homeId = Some (JStr ''HOME_01''), t_deviceId = Some (JStr ''AIR_HOME_01''),
              t_stream = Some (JStr ''BANANA''),
              t_payload =
                   \<lparr> co2 = None, co = None, pm25 = None, pm10 = None,
                     temperature_c = None, humidity_pct = None, stove_temp_c = None,
                     fanOn = None, buzzerOn = None, profile = None, windowOpen = None \<rparr>,
              t_ts = ''2024-01-01T00:00:00.000Z'',
              t_deviceRef = Some (JStr ''dev-1'') \<rparr>
     \<in> set (fst (on_parsed sample_runtime sample_store \<lparr> client = True, io = None \<rparr>
                ''shega/kitchen/data''
                (JObj [(''homeId'', JStr ''HOME_01''), (''deviceId'', JStr ''AIR_HOME_01''),
                       (''stream'', JStr ''banana'')])))"
  using C2_unchecked_stream_persisted by simp

section \<open>Properties of the command dispatcher\<close>

text \<open>
  C3, as the code has it. When the lookup yields no device the call fails with
  \<open>Device not found\<close> (status 404) and publishes nothing. When it yields a device whose
  type is a string, and the publisher module is available on a started client, exactly one
  message is published: on \<open>shega/<lower-cased type>/control\<close>, with the device's
  \<open>deviceId\<close> and \<open>homeId\<close>, the command as given and the issue time; the call returns
  that topic and payload. When it yields a device and no publisher module is available, the
  call fails with \<open>MQTT publisher not available\<close> (status 500) and publishes nothing.
\<close>

theorem C3_dispatch:
  "(findOne env devId = Inr found \<and> \<not> truthy found \<longrightarrow>
      sendDeviceControl rt env devId command =
        ([], Inl (Err ''Device not found'' (Some 404))))
   \<and> (findOne env devId = Inr (Some device) \<and> truthy_json device \<and>
      getMqtt env = Some (publish st) \<and> client st \<and>
      js_get device ''type'' = Some (JStr ty) \<longrightarrow>
      sendDeviceControl rt env devId command =
        ([BusPublish (''shega/'' @ toLowerCase rt ty @ ''/control'')
            (ControlBody \<lparr> cp_deviceId = js_get device ''deviceId'',
                           cp_homeId = js_get device ''homeId'',
                           cp_command = command, cp_ts = now_iso rt 0 \<rparr>)],
         Inr \<lparr> r_ok = True, r_topic = ''shega/'' @ toLowerCase rt ty @ ''/control'',
               r_payload = \<lparr> cp_deviceId = js_get device ''deviceId'',
                             cp_homeId = js_get device ''homeId'',
                             cp_command = command, cp_ts = now_iso rt 0 \<rparr> \<rparr>))
   \<and> (findOne env devId = Inr (Some device) \<and> truthy_json device \<and> getMqtt env = None \<longrightarrow>
      sendDeviceControl rt env devId command =
        ([], Inl (Err ''MQTT publisher not available'' (Some 500))))"
  by (cases found) (auto simp: sendDeviceControl_def publish_def)

text \<open>C3 at the command \<open>fanOn: true\<close> for the stove node \<open>STOVE_HOME_02\<close>, for a
  device id the registry does not know, and for the stove node without a publisher.\<close>

theorem C3_dispatch_witness:
  "sendDeviceControl sample_runtime sample_dispatch_env
      (Some (JStr ''STOVE_HOME_02'')) (Some (JObj [(''fanOn'', JBool True)])) =
     ([BusPublish ''shega/stovenode/control''
         (ControlBody \<lparr> cp_deviceId = Some (JStr ''STOVE_HOME_02''),
                        cp_homeId = Some (JStr ''HOME_02''),
                        cp_command = Some (JObj [(''fanOn'', JBool True)]),
                        cp_ts = ''2024-01-01T00:00:00.000Z'' \<rparr>)],
      Inr \<lparr> r_ok = True, r_topic = ''shega/stovenode/control'',
            r_payload = \<lparr> cp_deviceId = Some (JStr ''STOVE_HOME_02''),
                          cp_homeId = Some (JStr ''HOME_02''),
                          cp_command = Some (JObj [(''fanOn'', JBool True)]),
                          cp_ts = ''2024-01-01T00:00:00.000Z'' \<rparr> \<rparr>)
   \<and> sendDeviceControl sample_runtime sample_dispatch_env
      (Some (JStr ''NO_SUCH_DEVICE'')) (Some (JObj [(''fanOn'', JBool True)])) =
     ([], Inl (Err ''Device not found'' (Some 404)))
   \<and> sendDeviceControl sample_runtime (sample_dispatch_env \<lparr> getMqtt := None \<rparr>)
      (Some (JStr ''STOVE_HOME_02'')) (Some (JObj [(''buzzer'', JBool True)])) =
     ([], Inl (Err ''MQTT publisher not available'' (Some 500)))"
  using C3_dispatch [where env = sample_dispatch_env and devId = "Some (JStr ''STOVE_HOME_02'')"
      and device = sample_device and st = "\<lparr> client = True, io = None \<rparr>"
      and ty = "''STOVENODE''" and rt = sample_runtime
      and command = "Some (JObj [(''fanOn'', JBool True)])"]
    C3_dispatch [where env = sample_dispatch_env and devId = "Some (JStr ''NO_SUCH_DEVICE'')"
      and found = "Some JNull" and rt = sample_runtime
      and command = "Some (JObj [(''fanOn'', JBool True)])"]
    C3_dispatch [where env = "sample_dispatch_env \<lparr> getMqtt := None \<rparr>"
      and devId = "Some (JStr ''STOVE_HOME_02'')"
      and device = sample_device and rt = sample_runtime
      and command = "Some (JObj [(''buzzer'', JBool True)])"]
  by (simp add: sample_dispatch_env_def sample_device_def sample_runtime_def toLowerCase_def
      is_ascii_def lower_char_def lower_letters_def upper_letters_def)

text \<open>
  C3 as the specification words it (a successful lookup always publishes one message)
  fails when \<open>getMqtt()\<close> yields no publisher: the lookup succeeds, the call fails with
  status 500 and nothing is published.
\<close>

theorem C3_publisher_missing_counterexample:
  "sendDeviceControl sample_runtime (sample_dispatch_env \<lparr> getMqtt := None \<rparr>)
      (Some (JStr ''STOVE_HOME_02'')) (Some (JObj [(''fanOn'', JBool True)])) =
     ([], Inl (Err ''MQTT publisher not available'' (Some 500)))
   \<and> findOne (sample_dispatch_env \<lparr> getMqtt := None \<rparr>) (Some (JStr ''STOVE_HOME_02'')) =
     Inr (Some sample_device)"
  by (simp add: sendDeviceControl_def sample_dispatch_env_def sample_device_def)

end
